theory Spec2Isabelle
  imports Complex_Main
begin

section \<open>Values, columns and frames\<close>

text \<open>
  The script \<^verbatim>\<open>airflights.py\<close> works on pandas tables. A table is a list of named
  columns of one length; a column has one dtype:
  \<^item> \<open>IntCol\<close>: int64, no missing value;
  \<^item> \<open>FloatCol\<close>: float64, \<open>None\<close> is NaN. A finite float is carried by the rational
    it denotes; infinities and the rounding of float arithmetic are outside the model;
  \<^item> \<open>ObjCol\<close>: object, every entry a \<^verbatim>\<open>str\<close> or NaN (\<open>None\<close>), as \<^verbatim>\<open>read_csv\<close> yields;
  \<^item> \<open>DtCol\<close>: datetime64[ns], an int64 count of nanoseconds since 1970-01-01,
    \<open>None\<close> is NaT;
  \<^item> \<open>PeriodCol\<close>: monthly periods (the \<^verbatim>\<open>YEAR_MONTH\<close> column), \<open>None\<close> is NaT.

  A string is a list of code points below 256. Rows are labelled \<open>0, 1, 2, ...\<close>
  (the RangeIndex of \<^verbatim>\<open>read_csv\<close>), so the position in a list is the row label.
\<close>

datatype pyerr = KeyError string | AttributeError | OperandError | MergeError

datatype column =
    IntCol "int list"
  | FloatCol "rat option list"
  | ObjCol "string option list"
  | DtCol "int option list"
  | PeriodCol "int option list"

type_synonym frame = "(string \<times> column) list"

fun col_len :: "column \<Rightarrow> nat" where
  "col_len (IntCol xs) = length xs"
| "col_len (FloatCol xs) = length xs"
| "col_len (ObjCol xs) = length xs"
| "col_len (DtCol xs) = length xs"
| "col_len (PeriodCol xs) = length xs"

text \<open>
  The pandas primitives that read or print a scalar are parameters of the model: what
  follows holds for every choice of them.
  \<^item> \<open>float_str\<close>, \<open>ts_str\<close>, \<open>period_str\<close>: \<^verbatim>\<open>str\<close> of a float, a timestamp, a period;
  \<^item> \<open>str_to_num\<close>: the number \<^verbatim>\<open>pd.to_numeric\<close> reads in a string, \<open>None\<close> if none;
  \<^item> \<open>strs_to_ts xs i\<close>: the timestamp \<^verbatim>\<open>pd.to_datetime\<close> reads in row \<open>i\<close> of the column
    of strings \<open>xs\<close> (the format may be inferred from other rows), \<open>None\<close> where
    \<^verbatim>\<open>errors="coerce"\<close> gives NaT; \<open>num_to_ts\<close>: the same for a number;
  \<^item> \<open>ymd_to_ts\<close>: the timestamp \<^verbatim>\<open>pd.to_datetime\<close> assembles from year, month, day;
  \<^item> \<open>ts_to_month\<close>: the monthly period of a timestamp.
\<close>

record pandas =
  float_str :: "rat \<Rightarrow> string"
  ts_str :: "int \<Rightarrow> string"
  period_str :: "int \<Rightarrow> string"
  str_to_num :: "string \<Rightarrow> rat option"
  strs_to_ts :: "string option list \<Rightarrow> nat \<Rightarrow> int option"
  num_to_ts :: "rat \<Rightarrow> int option"
  ymd_to_ts :: "rat \<Rightarrow> rat \<Rightarrow> rat \<Rightarrow> int option"
  ts_to_month :: "int \<Rightarrow> int"

subsection \<open>Python strings\<close>

definition digit_chars :: string where
  "digit_chars = ''0123456789''"

fun str_nat :: "nat \<Rightarrow> string" where
  "str_nat n =
     (if n < 10 then [digit_chars ! n]
      else str_nat (n div 10) @ [digit_chars ! (n mod 10)])"

declare str_nat.simps [simp del]

definition str_int :: "int \<Rightarrow> string" where
  "str_int i = (if i < 0 then CHR ''-'' # str_nat (nat (- i)) else str_nat (nat i))"

text \<open>\<^verbatim>\<open>Series.astype(str)\<close>: \<^verbatim>\<open>str\<close> of every entry; NaN prints as \<^verbatim>\<open>nan\<close>.\<close>

fun astype_str :: "pandas \<Rightarrow> column \<Rightarrow> string list" where
  "astype_str lib (IntCol xs) = map str_int xs"
| "astype_str lib (FloatCol xs) =
     map (\<lambda>v. case v of None \<Rightarrow> ''nan'' | Some q \<Rightarrow> float_str lib q) xs"
| "astype_str lib (ObjCol xs) = map (\<lambda>v. case v of None \<Rightarrow> ''nan'' | Some s \<Rightarrow> s) xs"
| "astype_str lib (DtCol xs) =
     map (\<lambda>v. case v of None \<Rightarrow> ''NaT'' | Some t \<Rightarrow> ts_str lib t) xs"
| "astype_str lib (PeriodCol xs) =
     map (\<lambda>v. case v of None \<Rightarrow> ''NaT'' | Some p \<Rightarrow> period_str lib p) xs"

text \<open>
  \<^verbatim>\<open>.str.replace(r'\.0+$', '', regex=True)\<close>: the leftmost dot that is followed by one
  or more zeros up to the end of the string is removed with its zeros. Python's \<^verbatim>\<open>$\<close>
  also matches before a final newline, which then stays.
\<close>

definition is_zero :: "char \<Rightarrow> bool" where
  "is_zero c = (c = CHR ''0'')"

definition zeros_to_end :: "string \<Rightarrow> bool" where
  "zeros_to_end cs =
     (takeWhile is_zero cs \<noteq> [] \<and>
      (dropWhile is_zero cs = [] \<or> dropWhile is_zero cs = [CHR 0x0A]))"

fun strip_dot_zeros :: "string \<Rightarrow> string" where
  "strip_dot_zeros [] = []"
| "strip_dot_zeros (c # cs) =
     (if c = CHR ''.'' \<and> zeros_to_end cs then dropWhile is_zero cs
      else c # strip_dot_zeros cs)"

text \<open>\<^verbatim>\<open>.str.zfill(width)\<close>: zeros on the left, after a leading sign.\<close>

definition zfill :: "nat \<Rightarrow> string \<Rightarrow> string" where
  "zfill width s =
     (if width \<le> length s then s
      else (case s of
              [] \<Rightarrow> replicate width (CHR ''0'')
            | c # rest \<Rightarrow>
                if c = CHR ''+'' \<or> c = CHR ''-''
                then c # replicate (width - length s) (CHR ''0'') @ rest
                else replicate (width - length s) (CHR ''0'') @ s))"

text \<open>
  \<^verbatim>\<open>.str.isdigit()\<close>: the string is not empty and every character is a digit. Below
  code point 256 Python's digits are \<^verbatim>\<open>0\<close> to \<^verbatim>\<open>9\<close> and the superscripts two, three and
  one (B2, B3, B9), which \<^verbatim>\<open>int\<close> does not read.
\<close>

definition is_decimal :: "char \<Rightarrow> bool" where
  "is_decimal c = (c \<in> set digit_chars)"

definition is_digit_char :: "char \<Rightarrow> bool" where
  "is_digit_char c = (is_decimal c \<or> c = CHR 0xB2 \<or> c = CHR 0xB3 \<or> c = CHR 0xB9)"

definition isdigit :: "string \<Rightarrow> bool" where
  "isdigit s = (s \<noteq> [] \<and> list_all is_digit_char s)"

text \<open>
  \<^verbatim>\<open>.astype(int)\<close> of a string: \<^verbatim>\<open>int(x)\<close>, here \<open>None\<close> for the ValueError. The strings
  that reach it are two characters of a string that passed \<open>isdigit\<close>.
\<close>

definition digit_val :: "char \<Rightarrow> int" where
  "digit_val c = of_char c - 48"

definition digits_value :: "string \<Rightarrow> int" where
  "digits_value s = foldl (\<lambda>acc c. 10 * acc + digit_val c) 0 s"

definition py_int :: "string \<Rightarrow> int option" where
  "py_int s = (if s \<noteq> [] \<and> list_all is_decimal s then Some (digits_value s) else None)"

section \<open>Time reconstruction: \<^verbatim>\<open>hhmm_to_datetime\<close>\<close>

definition ns_per_minute :: int where
  "ns_per_minute = 60000000000"

definition ns_per_hour :: int where
  "ns_per_hour = 3600000000000"

definition ns_per_day :: int where
  "ns_per_day = 86400000000000"

text \<open>The range of datetime64[ns]: the least int64 is NaT.\<close>

definition ts_max :: int where
  "ts_max = 9223372036854775807"

definition ts_min :: int where
  "ts_min = - 9223372036854775807"

text \<open>Line 33: the padded string of every time code.\<close>

definition code_strings :: "pandas \<Rightarrow> column \<Rightarrow> string list" where
  "code_strings lib time_series =
     map (\<lambda>x. zfill 4 (strip_dot_zeros x)) (astype_str lib time_series)"

text \<open>Lines 37 and 38 on one row: \<^verbatim>\<open>slice(0,2)\<close> and \<^verbatim>\<open>slice(2,4)\<close> as integers.\<close>

definition hh_mm :: "string \<Rightarrow> (int \<times> int) option" where
  "hh_mm s =
     (case py_int (take 2 s) of
        None \<Rightarrow> None
      | Some h \<Rightarrow>
          (case py_int (take 2 (drop 2 s)) of
             None \<Rightarrow> None
           | Some m \<Rightarrow> Some (h, m)))"

text \<open>\<^verbatim>\<open>.dt.date\<close> and back: the timestamp of the day at 00:00.\<close>

definition midnight :: "int \<Rightarrow> int" where
  "midnight t = (t div ns_per_day) * ns_per_day"

text \<open>
  Line 39 on one row. The outer \<open>None\<close> is an exception: \<^verbatim>\<open>pd.to_datetime\<close> raises on a
  day whose midnight is before the least timestamp, and each addition raises on int64
  overflow. A missing date stays missing.
\<close>

definition date_plus :: "int option \<Rightarrow> int \<times> int \<Rightarrow> int option option" where
  "date_plus d hm =
     (case d of
        None \<Rightarrow> Some None
      | Some t \<Rightarrow>
          if midnight t < ts_min then None
          else if ts_max < midnight t + fst hm * ns_per_hour then None
          else if ts_max < midnight t + fst hm * ns_per_hour + snd hm * ns_per_minute
          then None
          else Some (Some (midnight t + fst hm * ns_per_hour + snd hm * ns_per_minute)))"

definition row_out :: "int option \<times> string \<Rightarrow> int option option" where
  "row_out r =
     (if isdigit (snd r)
      then (case hh_mm (snd r) of None \<Rightarrow> None | Some hm \<Rightarrow> date_plus (fst r) hm)
      else Some None)"

text \<open>
  Lines 37 to 40, the body of the \<^verbatim>\<open>try\<close>; \<open>None\<close> when an exception is raised in it:
  \<^item> \<^verbatim>\<open>astype(int)\<close> fails on a row of the mask;
  \<^item> \<^verbatim>\<open>date_series\<close> has no \<^verbatim>\<open>.dt\<close> (it is not a datetime column);
  \<^item> the mask has no entry for a row of \<^verbatim>\<open>date_series\<close> (an unalignable indexer);
  \<^item> a row of the mask raises in line 39.
  Rows of the mask beyond the end of \<^verbatim>\<open>date_series\<close> are dropped by the assignment.
\<close>

definition try_block :: "column \<Rightarrow> string list \<Rightarrow> int option list option" where
  "try_block date_series s =
     (case those (map hh_mm (filter isdigit s)) of
        None \<Rightarrow> None
      | Some hms \<Rightarrow>
          (case date_series of
             DtCol ds \<Rightarrow>
               if length s < length ds then None
               else those (map row_out (zip ds s))
           | _ \<Rightarrow> None))"

text \<open>
  No row raises: neither the integer conversion of its code nor line 39 on its date.
\<close>

definition no_raise :: "int option list \<Rightarrow> string list \<Rightarrow> bool" where
  "no_raise ds s = list_all (\<lambda>r. row_out r \<noteq> None) (zip ds s)"

definition hhmm_to_datetime ::
    "pandas \<Rightarrow> column option \<Rightarrow> column option \<Rightarrow> pyerr + int option list" where
  "hhmm_to_datetime lib date_series time_series =
     (if time_series = None \<or> date_series = None
      then (case date_series of
              None \<Rightarrow> Inl AttributeError
            | Some dcol \<Rightarrow> Inr (replicate (col_len dcol) None))
      else (case try_block (the date_series) (code_strings lib (the time_series)) of
              None \<Rightarrow> Inr (replicate (col_len (the date_series)) None)
            | Some out \<Rightarrow> Inr out))"

section \<open>Tables\<close>

text \<open>\<^verbatim>\<open>name in df.columns\<close>, \<^verbatim>\<open>df[name]\<close>, \<^verbatim>\<open>df[name] = col\<close>, \<^verbatim>\<open>len(df)\<close>.\<close>

definition has_col :: "frame \<Rightarrow> string \<Rightarrow> bool" where
  "has_col f n = (n \<in> set (map fst f))"

definition get_col :: "frame \<Rightarrow> string \<Rightarrow> column option" where
  "get_col f n = map_of f n"

fun set_col :: "frame \<Rightarrow> string \<Rightarrow> column \<Rightarrow> frame" where
  "set_col [] n c = [(n, c)]"
| "set_col ((k, v) # f) n c = (if k = n then (n, c) # f else (k, v) # set_col f n c)"

definition nrows :: "frame \<Rightarrow> nat" where
  "nrows f = (case f of [] \<Rightarrow> 0 | (n, c) # rest \<Rightarrow> col_len c)"

definition rename_col :: "frame \<Rightarrow> string \<Rightarrow> string \<Rightarrow> frame" where
  "rename_col f old new = map (\<lambda>(k, v). (if k = old then new else k, v)) f"

text \<open>\<^verbatim>\<open>Series.isna()\<close>.\<close>

fun isna :: "column \<Rightarrow> bool list" where
  "isna (IntCol xs) = map (\<lambda>v. False) xs"
| "isna (FloatCol xs) = map (\<lambda>v. v = None) xs"
| "isna (ObjCol xs) = map (\<lambda>v. v = None) xs"
| "isna (DtCol xs) = map (\<lambda>v. v = None) xs"
| "isna (PeriodCol xs) = map (\<lambda>v. v = None) xs"

text \<open>
  \<^verbatim>\<open>pd.to_numeric(col, errors="coerce")\<close>. A numeric column is returned as it is, a string
  that is no number becomes NaN, a datetime column becomes its int64 values (NaT is the
  least int64). The column of parsed strings is written as a float column also where
  pandas would store the same numbers as int64. Periods are not reached by the script.
\<close>

fun to_numeric :: "pandas \<Rightarrow> column \<Rightarrow> column" where
  "to_numeric lib (IntCol xs) = IntCol xs"
| "to_numeric lib (FloatCol xs) = FloatCol xs"
| "to_numeric lib (ObjCol xs) =
     FloatCol (map (\<lambda>v. case v of None \<Rightarrow> None | Some s \<Rightarrow> str_to_num lib s) xs)"
| "to_numeric lib (DtCol xs) =
     IntCol (map (\<lambda>v. case v of None \<Rightarrow> - 9223372036854775808 | Some t \<Rightarrow> t) xs)"
| "to_numeric lib (PeriodCol xs) = FloatCol (map (\<lambda>v. None) xs)"

text \<open>The numbers of a numeric column; \<open>None\<close> is NaN.\<close>

fun num_values :: "column \<Rightarrow> rat option list" where
  "num_values (IntCol xs) = map (\<lambda>i. Some (of_int i)) xs"
| "num_values (FloatCol xs) = xs"
| "num_values (ObjCol xs) = map (\<lambda>v. None) xs"
| "num_values (DtCol xs) = map (\<lambda>v. None) xs"
| "num_values (PeriodCol xs) = map (\<lambda>v. None) xs"

text \<open>
  \<^verbatim>\<open>pd.to_datetime(col, errors="coerce")\<close>: the timestamps of a column. Periods are not
  reached by the script.
\<close>

fun to_datetime :: "pandas \<Rightarrow> column \<Rightarrow> int option list" where
  "to_datetime lib (DtCol xs) = xs"
| "to_datetime lib (ObjCol xs) = map (strs_to_ts lib xs) [0..<length xs]"
| "to_datetime lib (IntCol xs) = map (\<lambda>i. num_to_ts lib (of_int i)) xs"
| "to_datetime lib (FloatCol xs) =
     map (\<lambda>v. case v of None \<Rightarrow> None | Some q \<Rightarrow> num_to_ts lib q) xs"
| "to_datetime lib (PeriodCol xs) = map (\<lambda>v. None) xs"

text \<open>
  \<^verbatim>\<open>pd.to_datetime(df[["YEAR","MONTH","DAY"]], errors="coerce")\<close>: every part is coerced
  to a number, and a row with a missing part is NaT.
\<close>

definition ymd_row :: "pandas \<Rightarrow> rat option \<times> rat option \<times> rat option \<Rightarrow> int option" where
  "ymd_row lib r =
     (case r of
        (Some y, Some m, Some d) \<Rightarrow> ymd_to_ts lib y m d
      | _ \<Rightarrow> None)"

definition ymd_assemble :: "pandas \<Rightarrow> column \<Rightarrow> column \<Rightarrow> column \<Rightarrow> int option list" where
  "ymd_assemble lib y m d =
     map (ymd_row lib)
       (zip (num_values (to_numeric lib y))
         (zip (num_values (to_numeric lib m)) (num_values (to_numeric lib d))))"

section \<open>Preparing the flights table (lines 59 to 115)\<close>

text \<open>
  The model starts after line 54, on the two tables with their column names in upper
  case. Lines 62 to 65: the calendar date.
\<close>

definition derive_fl_date :: "pandas \<Rightarrow> frame \<Rightarrow> frame" where
  "derive_fl_date lib fl =
     (if has_col fl ''YEAR'' \<and> has_col fl ''MONTH'' \<and> has_col fl ''DAY''
         \<and> \<not> has_col fl ''FL_DATE''
      then set_col fl ''FL_DATE''
             (DtCol (ymd_assemble lib (the (get_col fl ''YEAR'')) (the (get_col fl ''MONTH''))
                       (the (get_col fl ''DAY''))))
      else if has_col fl ''FL_DATE''
      then set_col fl ''FL_DATE'' (DtCol (to_datetime lib (the (get_col fl ''FL_DATE''))))
      else fl)"

text \<open>Lines 67 to 71.\<close>

definition time_hour_step :: "pandas \<Rightarrow> frame \<Rightarrow> frame" where
  "time_hour_step lib fl =
     (if has_col fl ''TIME_HOUR''
      then set_col fl ''TIME_HOUR'' (DtCol (to_datetime lib (the (get_col fl ''TIME_HOUR''))))
      else fl)"

text \<open>Lines 74 to 82: the four timestamps, in the order of the dictionary.\<close>

definition time_map :: "(string \<times> string) list" where
  "time_map =
     [(''CRS_DEP_TIME'', ''SCHED_DEP_DATETIME''),
      (''DEP_TIME'', ''ACTUAL_DEP_DATETIME''),
      (''CRS_ARR_TIME'', ''SCHED_ARR_DATETIME''),
      (''ARR_TIME'', ''ACTUAL_ARR_DATETIME'')]"

definition time_step :: "pandas \<Rightarrow> frame \<Rightarrow> string \<times> string \<Rightarrow> pyerr + frame" where
  "time_step lib fl e =
     (if has_col fl (fst e) \<and> has_col fl ''FL_DATE''
      then (case hhmm_to_datetime lib (get_col fl ''FL_DATE'') (get_col fl (fst e)) of
              Inl err \<Rightarrow> Inl err
            | Inr out \<Rightarrow> Inr (set_col fl (snd e) (DtCol out)))
      else Inr fl)"

fun time_loop :: "pandas \<Rightarrow> frame \<Rightarrow> (string \<times> string) list \<Rightarrow> pyerr + frame" where
  "time_loop lib fl [] = Inr fl"
| "time_loop lib fl (e # es) =
     (case time_step lib fl e of
        Inl err \<Rightarrow> Inl err
      | Inr fl' \<Rightarrow> time_loop lib fl' es)"

text \<open>
  Lines 85 to 91: the delay in minutes. In line 89 the difference of two datetime columns
  is a column of durations, \<^verbatim>\<open>total_seconds() / 60\<close> its minutes; on columns of another
  dtype the subtraction or the \<^verbatim>\<open>.dt\<close> raises.
\<close>

definition minutes_between :: "int option \<times> int option \<Rightarrow> rat option" where
  "minutes_between r =
     (case r of
        (Some a, Some s) \<Rightarrow> Some (of_int (a - s) / of_int ns_per_minute)
      | _ \<Rightarrow> None)"

definition dep_delay_step :: "pandas \<Rightarrow> frame \<Rightarrow> pyerr + frame" where
  "dep_delay_step lib fl =
     (if has_col fl ''DEP_DELAY''
      then Inr (set_col fl ''DEP_DELAY_MIN'' (to_numeric lib (the (get_col fl ''DEP_DELAY''))))
      else if has_col fl ''ACTUAL_DEP_DATETIME'' \<and> has_col fl ''SCHED_DEP_DATETIME''
      then (case (the (get_col fl ''ACTUAL_DEP_DATETIME''),
                  the (get_col fl ''SCHED_DEP_DATETIME'')) of
              (DtCol a, DtCol s) \<Rightarrow>
                Inr (set_col fl ''DEP_DELAY_MIN'' (FloatCol (map minutes_between (zip a s))))
            | _ \<Rightarrow> Inl OperandError)
      else Inr (set_col fl ''DEP_DELAY_MIN'' (FloatCol (replicate (nrows fl) None))))"

text \<open>
  Lines 93 to 105: the cancellation flag. \<open>contains sub s\<close> is \<^verbatim>\<open>sub in s\<close>;
  \<open>astype_int\<close> is the cast of a float to int64, which drops the fraction.
\<close>

fun starts_with :: "string \<Rightarrow> string \<Rightarrow> bool" where
  "starts_with [] s = True"
| "starts_with (p # ps) [] = False"
| "starts_with (p # ps) (c # cs) = (p = c \<and> starts_with ps cs)"

fun contains :: "string \<Rightarrow> string \<Rightarrow> bool" where
  "contains sub [] = (sub = [])"
| "contains sub (c # cs) = (starts_with sub (c # cs) \<or> contains sub cs)"

definition cancel_col :: "frame \<Rightarrow> string option" where
  "cancel_col fl = find (contains ''CANCEL'') (map fst fl)"

definition astype_int :: "rat \<Rightarrow> int" where
  "astype_int q = (if 0 \<le> q then \<lfloor>q\<rfloor> else \<lceil>q\<rceil>)"

definition fillna0_int :: "rat option \<Rightarrow> int" where
  "fillna0_int v = (case v of None \<Rightarrow> 0 | Some q \<Rightarrow> astype_int q)"

definition both_missing :: "bool \<times> bool \<Rightarrow> int" where
  "both_missing r = (if fst r \<and> snd r then 1 else 0)"

definition cancelled_flag :: "pandas \<Rightarrow> frame \<Rightarrow> column" where
  "cancelled_flag lib fl =
     (case cancel_col fl of
        Some c \<Rightarrow> IntCol (map fillna0_int (num_values (to_numeric lib (the (get_col fl c)))))
      | None \<Rightarrow>
          IntCol (map both_missing
            (zip (if has_col fl ''ACTUAL_DEP_DATETIME''
                  then isna (the (get_col fl ''ACTUAL_DEP_DATETIME''))
                  else replicate (nrows fl) True)
                 (if has_col fl ''ACTUAL_ARR_DATETIME''
                  then isna (the (get_col fl ''ACTUAL_ARR_DATETIME''))
                  else replicate (nrows fl) True))))"

definition cancel_step :: "pandas \<Rightarrow> frame \<Rightarrow> frame" where
  "cancel_step lib fl = set_col fl ''CANCELLED_FLAG'' (cancelled_flag lib fl)"

text \<open>Lines 108 to 111: the airline column.\<close>

definition airline_step :: "frame \<Rightarrow> frame" where
  "airline_step fl =
     (if has_col fl ''CARRIER'' \<and> \<not> has_col fl ''AIRLINE''
      then rename_col fl ''CARRIER'' ''AIRLINE''
      else if has_col fl ''OP_CARRIER'' \<and> \<not> has_col fl ''AIRLINE''
      then rename_col fl ''OP_CARRIER'' ''AIRLINE''
      else fl)"

text \<open>Lines 114 and 115: the columns kept, in the order of the list.\<close>

definition useful_cols :: "string list" where
  "useful_cols =
     [''FL_DATE'', ''AIRLINE'', ''TAIL_NUM'', ''FL_NUM'', ''ORIGIN'', ''DEST'',
      ''DEP_DELAY_MIN'', ''ARR_DELAY'', ''DISTANCE'', ''CANCELLED_FLAG'',
      ''SCHED_DEP_DATETIME'', ''ACTUAL_DEP_DATETIME'']"

definition select_cols :: "frame \<Rightarrow> string list \<Rightarrow> frame" where
  "select_cols f names = map (\<lambda>n. (n, the (get_col f n))) (filter (has_col f) names)"

text \<open>Lines 59 to 91, and lines 59 to 115.\<close>

definition flights_delay :: "pandas \<Rightarrow> frame \<Rightarrow> pyerr + frame" where
  "flights_delay lib flights_raw =
     (case time_loop lib (time_hour_step lib (derive_fl_date lib flights_raw)) time_map of
        Inl err \<Rightarrow> Inl err
      | Inr fl1 \<Rightarrow> dep_delay_step lib fl1)"

definition prepare_flights :: "pandas \<Rightarrow> frame \<Rightarrow> pyerr + frame" where
  "prepare_flights lib flights_raw =
     (case flights_delay lib flights_raw of
        Inl err \<Rightarrow> Inl err
      | Inr fl2 \<Rightarrow> Inr (select_cols (airline_step (cancel_step lib fl2)) useful_cols))"


section \<open>Preparing the weather table (lines 121 to 141)\<close>

definition derive_wx_date :: "pandas \<Rightarrow> frame \<Rightarrow> frame" where
  "derive_wx_date lib wx =
     (if \<not> has_col wx ''DATE'' \<and> has_col wx ''YEAR'' \<and> has_col wx ''MONTH''
         \<and> has_col wx ''DAY''
      then set_col wx ''DATE''
             (DtCol (ymd_assemble lib (the (get_col wx ''YEAR'')) (the (get_col wx ''MONTH''))
                       (the (get_col wx ''DAY''))))
      else if has_col wx ''DATE''
      then set_col wx ''DATE'' (DtCol (to_datetime lib (the (get_col wx ''DATE''))))
      else wx)"

definition station_step :: "frame \<Rightarrow> frame" where
  "station_step wx =
     (if has_col wx ''STATION'' \<and> \<not> has_col wx ''ORIGIN''
      then rename_col wx ''STATION'' ''ORIGIN''
      else wx)"

text \<open>Line 134: the columns of a numeric dtype.\<close>

fun is_numeric :: "column \<Rightarrow> bool" where
  "is_numeric (IntCol xs) = True"
| "is_numeric (FloatCol xs) = True"
| "is_numeric (ObjCol xs) = False"
| "is_numeric (DtCol xs) = False"
| "is_numeric (PeriodCol xs) = False"

definition numeric_part :: "frame \<Rightarrow> frame" where
  "numeric_part wx = filter (\<lambda>e. is_numeric (snd e)) wx"

definition numeric_weather_cols :: "frame \<Rightarrow> string list" where
  "numeric_weather_cols wx = map fst (numeric_part wx)"

text \<open>
  Line 136, \<^verbatim>\<open>wx.groupby("DATE")[numeric_weather_cols].mean().reset_index()\<close>: one group
  for every date that occurs (rows with a missing date belong to no group), in ascending
  order; the mean of a column over a group skips its missing values and is missing
  when the group has none. The sums and quotients are the exact ones.
\<close>

definition group_keys :: "int option list \<Rightarrow> int list" where
  "group_keys ds = sort (remdups (List.map_filter (\<lambda>d. d) ds))"

definition group_values :: "int option list \<Rightarrow> rat option list \<Rightarrow> int \<Rightarrow> rat list" where
  "group_values ds vs k = List.map_filter snd (filter (\<lambda>r. fst r = Some k) (zip ds vs))"

definition mean :: "rat list \<Rightarrow> rat option" where
  "mean xs = (if xs = [] then None else Some (sum_list xs / of_nat (length xs)))"

definition group_mean :: "int option list \<Rightarrow> column \<Rightarrow> column" where
  "group_mean ds c =
     FloatCol (map (\<lambda>k. mean (group_values ds (num_values c) k)) (group_keys ds))"

definition groupby_mean :: "int option list \<Rightarrow> frame \<Rightarrow> frame" where
  "groupby_mean ds wx =
     (''DATE'', DtCol (map Some (group_keys ds)))
       # map (\<lambda>e. (fst e, group_mean ds (snd e))) (numeric_part wx)"

text \<open>
  Lines 135 to 141. After lines 123 to 126 a \<^verbatim>\<open>DATE\<close> column is a datetime column; another
  dtype is not reached.
\<close>

definition weather_aggregate :: "frame \<Rightarrow> frame" where
  "weather_aggregate wx =
     (if numeric_weather_cols wx \<noteq> [] \<and> has_col wx ''DATE''
      then (case the (get_col wx ''DATE'') of
              DtCol ds \<Rightarrow> groupby_mean ds wx
            | _ \<Rightarrow> wx)
      else wx)"

definition prepare_weather :: "pandas \<Rightarrow> frame \<Rightarrow> frame" where
  "prepare_weather lib weather_raw =
     weather_aggregate (station_step (derive_wx_date lib weather_raw))"

section \<open>The merge (lines 146 to 152)\<close>

text \<open>
  \<^verbatim>\<open>pd.merge(left, right, left_on="FL_DATE", right_on="DATE", how="left",
  suffixes=("", "_WX"))\<close>. Every row of the left table, in its order, is paired with the
  rows of the right table that hold the same key, in their order (a missing key matches
  a missing key), or with no row when there is none. A column of the right table whose
  name is also a name of the left table gets the suffix; the merge raises when that
  makes two names of the right table equal, and when the key columns are of different
  dtypes. Key columns that are not datetime columns are not reached.
\<close>

definition match_rows :: "int option list \<Rightarrow> int option \<Rightarrow> nat list" where
  "match_rows rk k = filter (\<lambda>j. rk ! j = k) [0..<length rk]"

definition pairs_of :: "int option list \<Rightarrow> nat \<times> int option \<Rightarrow> (nat \<times> nat option) list" where
  "pairs_of rk r =
     (case match_rows rk (snd r) of
        [] \<Rightarrow> [(fst r, None)]
      | j # js \<Rightarrow> map (\<lambda>j'. (fst r, Some j')) (j # js))"

definition left_pairs :: "int option list \<Rightarrow> int option list \<Rightarrow> (nat \<times> nat option) list" where
  "left_pairs lk rk = concat (map (pairs_of rk) (zip [0..<length lk] lk))"

fun take_rows :: "column \<Rightarrow> nat list \<Rightarrow> column" where
  "take_rows (IntCol xs) is = IntCol (map (\<lambda>i. xs ! i) is)"
| "take_rows (FloatCol xs) is = FloatCol (map (\<lambda>i. xs ! i) is)"
| "take_rows (ObjCol xs) is = ObjCol (map (\<lambda>i. xs ! i) is)"
| "take_rows (DtCol xs) is = DtCol (map (\<lambda>i. xs ! i) is)"
| "take_rows (PeriodCol xs) is = PeriodCol (map (\<lambda>i. xs ! i) is)"

definition pick :: "'a option list \<Rightarrow> nat option \<Rightarrow> 'a option" where
  "pick xs j = (case j of None \<Rightarrow> None | Some i \<Rightarrow> xs ! i)"

text \<open>An int64 column with a row that has no partner becomes a float column.\<close>

fun take_opt :: "column \<Rightarrow> nat option list \<Rightarrow> column" where
  "take_opt (IntCol xs) js =
     (if list_all (\<lambda>j. j \<noteq> None) js then IntCol (map (\<lambda>j. xs ! the j) js)
      else FloatCol (map (pick (map (\<lambda>i. Some (of_int i)) xs)) js))"
| "take_opt (FloatCol xs) js = FloatCol (map (pick xs) js)"
| "take_opt (ObjCol xs) js = ObjCol (map (pick xs) js)"
| "take_opt (DtCol xs) js = DtCol (map (pick xs) js)"
| "take_opt (PeriodCol xs) js = PeriodCol (map (pick xs) js)"

definition suffix_right :: "frame \<Rightarrow> frame \<Rightarrow> string list" where
  "suffix_right left right =
     map (\<lambda>n. if has_col left n then n @ ''_WX'' else n) (map fst right)"

definition merge_left :: "frame \<Rightarrow> frame \<Rightarrow> pyerr + frame" where
  "merge_left left right =
     (case (get_col left ''FL_DATE'', get_col right ''DATE'') of
        (Some (DtCol lk), Some (DtCol rk)) \<Rightarrow>
          if \<not> distinct (suffix_right left right) then Inl MergeError
          else Inr (map (\<lambda>e. (fst e, take_rows (snd e) (map fst (left_pairs lk rk)))) left
                    @ map (\<lambda>e. (fst e, take_opt (snd e) (map snd (left_pairs lk rk))))
                        (zip (suffix_right left right) (map snd right)))
      | _ \<Rightarrow> Inl MergeError)"

definition merge_step :: "frame \<Rightarrow> frame \<Rightarrow> pyerr + frame" where
  "merge_step fl_small wx_agg =
     (if has_col fl_small ''FL_DATE'' \<and> has_col wx_agg ''DATE''
      then merge_left fl_small wx_agg
      else Inr fl_small)"

section \<open>The derived columns (lines 157 to 163)\<close>

text \<open>
  Line 159 tests for \<^verbatim>\<open>FL_DATE\<close>; line 161 reads \<^verbatim>\<open>m["FL_DATE"]\<close> without a test, a KeyError
  when the column is absent. \<^verbatim>\<open>NaN > 15\<close> is false.
\<close>

definition long_delay :: "rat option \<Rightarrow> int" where
  "long_delay v = (case v of None \<Rightarrow> 0 | Some q \<Rightarrow> if 15 < q then 1 else 0)"

definition long_delay_flag :: "pandas \<Rightarrow> column \<Rightarrow> column" where
  "long_delay_flag lib dep_delay_min =
     IntCol (map long_delay (num_values (to_numeric lib dep_delay_min)))"

definition ensure_fl_date :: "pandas \<Rightarrow> frame \<Rightarrow> frame" where
  "ensure_fl_date lib m =
     (if has_col m ''FL_DATE''
      then set_col m ''FL_DATE'' (DtCol (to_datetime lib (the (get_col m ''FL_DATE''))))
      else m)"

definition add_derived :: "pandas \<Rightarrow> frame \<Rightarrow> pyerr + frame" where
  "add_derived lib merged =
     (case get_col (ensure_fl_date lib merged) ''FL_DATE'' of
        None \<Rightarrow> Inl (KeyError ''FL_DATE'')
      | Some (DtCol ds) \<Rightarrow>
          (case get_col (ensure_fl_date lib merged) ''DEP_DELAY_MIN'' of
             None \<Rightarrow> Inl (KeyError ''DEP_DELAY_MIN'')
           | Some dd \<Rightarrow>
               Inr (set_col
                      (set_col
                         (set_col (ensure_fl_date lib merged) ''YEAR_MONTH''
                            (PeriodCol (map (map_option (ts_to_month lib)) ds)))
                         ''DEP_DELAY_MIN'' (to_numeric lib dd))
                      ''LONG_DELAY_FLAG'' (long_delay_flag lib dd)))
      | Some other \<Rightarrow> Inl AttributeError)"

section \<open>The whole script up to line 163\<close>

text \<open>Lines 59 to 152: the merged table. Lines 59 to 163: the table that is saved.\<close>

definition merged_table :: "pandas \<Rightarrow> frame \<Rightarrow> frame \<Rightarrow> pyerr + frame" where
  "merged_table lib flights_raw weather_raw =
     (case prepare_flights lib flights_raw of
        Inl err \<Rightarrow> Inl err
      | Inr fl_small \<Rightarrow> merge_step fl_small (prepare_weather lib weather_raw))"

definition pipeline :: "pandas \<Rightarrow> frame \<Rightarrow> frame \<Rightarrow> pyerr + frame" where
  "pipeline lib flights_raw weather_raw =
     (case merged_table lib flights_raw weather_raw of
        Inl err \<Rightarrow> Inl err
      | Inr merged \<Rightarrow> add_derived lib merged)"

section \<open>An instance of the pandas primitives\<close>

text \<open>
  The examples below are run on this instance. It reads a date written
  \<^verbatim>\<open>YYYY-MM-DD\<close>, a number written in decimal digits, prints an integer-valued float as
  Python does (\<^verbatim>\<open>530.0\<close>) and takes a number for nanoseconds since 1970; the printing
  of other floats, of timestamps and of periods is not used by the examples and left
  empty.
\<close>

definition days_from_civil :: "int \<Rightarrow> int \<Rightarrow> int \<Rightarrow> int" where
  "days_from_civil y m d =
     (let y' = (if m \<le> 2 then y - 1 else y);
          era = y' div 400;
          yoe = y' - era * 400;
          doy = (153 * (if 2 < m then m - 3 else m + 9) + 2) div 5 + d - 1;
          doe = yoe * 365 + yoe div 4 - yoe div 100 + doy
      in era * 146097 + doe - 719468)"

definition month_from_days :: "int \<Rightarrow> int" where
  "month_from_days z =
     (let z' = z + 719468;
          era = z' div 146097;
          doe = z' - era * 146097;
          yoe = (doe - doe div 1460 + doe div 36524 - doe div 146096) div 365;
          doy = doe - (365 * yoe + yoe div 4 - yoe div 100);
          mp = (5 * doy + 2) div 153;
          m = (if mp < 10 then mp + 3 else mp - 9);
          y = yoe + era * 400 + (if m \<le> 2 then 1 else 0)
      in (y - 1970) * 12 + (m - 1))"

definition days_in_month :: "int \<Rightarrow> int \<Rightarrow> int" where
  "days_in_month y m =
     (if m = 2 then (if y mod 4 = 0 \<and> (y mod 100 \<noteq> 0 \<or> y mod 400 = 0) then 29 else 28)
      else if m = 4 \<or> m = 6 \<or> m = 9 \<or> m = 11 then 30 else 31)"

definition civil_ts :: "int \<Rightarrow> int \<Rightarrow> int \<Rightarrow> int option" where
  "civil_ts y m d =
     (if 1 \<le> m \<and> m \<le> 12 \<and> 1 \<le> d \<and> d \<le> days_in_month y m
         \<and> ts_min \<le> days_from_civil y m d * ns_per_day
         \<and> days_from_civil y m d * ns_per_day \<le> ts_max
      then Some (days_from_civil y m d * ns_per_day)
      else None)"

definition iso_date :: "string \<Rightarrow> int option" where
  "iso_date s =
     (if length s = 10 \<and> s ! 4 = CHR ''-'' \<and> s ! 7 = CHR ''-''
      then (case (py_int (take 4 s), py_int (take 2 (drop 5 s)), py_int (drop 8 s)) of
              (Some y, Some m, Some d) \<Rightarrow> civil_ts y m d
            | _ \<Rightarrow> None)
      else None)"

definition example_lib :: pandas where
  "example_lib =
     \<lparr> float_str = (\<lambda>q. if q = of_int \<lfloor>q\<rfloor> then str_int \<lfloor>q\<rfloor> @ ''.0'' else []),
       ts_str = (\<lambda>t. []),
       period_str = (\<lambda>p. []),
       str_to_num = (\<lambda>s. map_option of_int (py_int s)),
       strs_to_ts = (\<lambda>xs i. case xs ! i of None \<Rightarrow> None | Some s \<Rightarrow> iso_date s),
       num_to_ts = (\<lambda>q. if ts_min \<le> \<lfloor>q\<rfloor> \<and> \<lfloor>q\<rfloor> \<le> ts_max then Some \<lfloor>q\<rfloor> else None),
       ymd_to_ts = (\<lambda>y m d. if y = of_int \<lfloor>y\<rfloor> \<and> m = of_int \<lfloor>m\<rfloor> \<and> d = of_int \<lfloor>d\<rfloor>
                            then civil_ts \<lfloor>y\<rfloor> \<lfloor>m\<rfloor> \<lfloor>d\<rfloor> else None),
       ts_to_month = (\<lambda>t. month_from_days (t div ns_per_day)) \<rparr>"


section \<open>Properties of \<^verbatim>\<open>hhmm_to_datetime\<close>\<close>

lemma those_eq_Some: "those xs = Some ys \<longleftrightarrow> xs = map Some ys"
  by (induction xs arbitrary: ys) (auto split: option.splits)

lemma those_map_None: "those (map f xs) = None \<longleftrightarrow> (\<exists>x\<in>set xs. f x = None)"
  by (induction xs) (auto split: option.splits)

lemma those_append:
  "those (xs @ ys) =
     (case those xs of None \<Rightarrow> None
      | Some a \<Rightarrow> (case those ys of None \<Rightarrow> None | Some b \<Rightarrow> Some (a @ b)))"
  by (induction xs) (auto split: option.splits)

text \<open>
  C8. A call with \<^verbatim>\<open>date_series=None\<close> reaches \<^verbatim>\<open>date_series.index\<close> in line 32 and
  raises AttributeError, whatever the time sequence is; only a call whose time sequence
  alone is absent returns the all-missing sequence over the index of the dates.
\<close>

theorem hhmm_absent_input:
  "hhmm_to_datetime lib None time_series = Inl AttributeError \<and>
   hhmm_to_datetime lib (Some dcol) None = Inr (replicate (col_len dcol) None)"
  by (simp add: hhmm_to_datetime_def)

lemma length_code_strings: "length (code_strings lib c) = col_len c"
  by (cases c) (simp_all add: code_strings_def)

lemma hh_mm_of_row: "isdigit (snd r) \<Longrightarrow> row_out r \<noteq> None \<Longrightarrow> hh_mm (snd r) \<noteq> None"
  by (auto simp: row_out_def split: option.splits)

lemma filter_hh_mm_ok:
  assumes "length s = length ds" "no_raise ds s"
  shows "those (map hh_mm (filter isdigit s)) \<noteq> None"
proof -
  have "hh_mm c \<noteq> None" if "c \<in> set s" "isdigit c" for c
  proof -
    from that(1) assms(1) obtain d where "(d, c) \<in> set (zip ds s)"
      by (metis in_set_impl_in_set_zip2)
    with assms(2) have "row_out (d, c) \<noteq> None"
      by (auto simp: no_raise_def list_all_iff)
    with that(2) show ?thesis using hh_mm_of_row[of "(d, c)"] by simp
  qed
  then show ?thesis by (auto simp: those_map_None)
qed

lemma try_block_ok:
  assumes "length s = length ds" "no_raise ds s"
  shows "try_block (DtCol ds) s = Some (map (\<lambda>r. the (row_out r)) (zip ds s))"
proof -
  have "map row_out (zip ds s) = map Some (map (\<lambda>r. the (row_out r)) (zip ds s))"
    using assms(2) by (auto simp: no_raise_def list_all_iff)
  then have "those (map row_out (zip ds s)) = Some (map (\<lambda>r. the (row_out r)) (zip ds s))"
    by (simp only: those_eq_Some)
  with filter_hh_mm_ok[OF assms] assms(1) show ?thesis
    by (auto simp: try_block_def split: option.splits)
qed

lemma try_block_raise:
  assumes "\<not> no_raise ds s"
  shows "try_block (DtCol ds) s = None"
proof -
  from assms have "those (map row_out (zip ds s)) = None"
    by (auto simp: no_raise_def list_all_iff those_map_None)
  then show ?thesis by (auto simp: try_block_def split: option.splits)
qed

lemma hhmm_no_raise:
  assumes "col_len time_series = length ds" "no_raise ds (code_strings lib time_series)"
  shows "hhmm_to_datetime lib (Some (DtCol ds)) (Some time_series) =
           Inr (map (\<lambda>r. the (row_out r)) (zip ds (code_strings lib time_series)))"
  using try_block_ok[of "code_strings lib time_series" ds] assms
  by (simp add: hhmm_to_datetime_def length_code_strings)

lemma hhmm_raise:
  assumes "\<not> no_raise ds (code_strings lib time_series)"
  shows "hhmm_to_datetime lib (Some (DtCol ds)) (Some time_series) =
           Inr (replicate (length ds) None)"
  using try_block_raise[OF assms] by (simp add: hhmm_to_datetime_def)

lemma row_out_four:
  assumes "is_decimal h1" "is_decimal h2" "is_decimal m1" "is_decimal m2"
  shows "row_out (d, [h1, h2, m1, m2]) =
           date_plus d (10 * digit_val h1 + digit_val h2, 10 * digit_val m1 + digit_val m2)"
  using assms
  by (simp add: row_out_def isdigit_def is_digit_char_def hh_mm_def py_int_def digits_value_def)

lemma date_plus_Some:
  "date_plus (Some t) hm \<noteq> None \<Longrightarrow>
   date_plus (Some t) hm = Some (Some (midnight t + fst hm * ns_per_hour + snd hm * ns_per_minute))"
  by (simp add: date_plus_def split: if_splits)

lemma hhmm_four_digits:
  assumes len: "col_len time_series = length ds"
    and ok: "no_raise ds (code_strings lib time_series)"
    and i: "i < length ds"
    and d: "ds ! i = Some t"
    and code: "code_strings lib time_series ! i = [h1, h2, m1, m2]"
    and dec: "is_decimal h1" "is_decimal h2" "is_decimal m1" "is_decimal m2"
  shows "\<exists>out. hhmm_to_datetime lib (Some (DtCol ds)) (Some time_series) = Inr out \<and>
           length out = length ds \<and>
           out ! i = Some (midnight t + (10 * digit_val h1 + digit_val h2) * ns_per_hour
                            + (10 * digit_val m1 + digit_val m2) * ns_per_minute)"
proof -
  let ?s = "code_strings lib time_series"
  let ?hm = "(10 * digit_val h1 + digit_val h2, 10 * digit_val m1 + digit_val m2)"
  have ls: "length ?s = length ds" using len by (simp add: length_code_strings)
  have z: "zip ds ?s ! i = (Some t, [h1, h2, m1, m2])" using i ls d code by simp
  have "(Some t, [h1, h2, m1, m2]) \<in> set (zip ds ?s)"
    using i ls z by (metis length_zip min.idem nth_mem)
  with ok have "row_out (Some t, [h1, h2, m1, m2]) \<noteq> None"
    by (auto simp: no_raise_def list_all_iff)
  then have "date_plus (Some t) ?hm \<noteq> None" using row_out_four[OF dec] by simp
  from date_plus_Some[OF this] have
    "row_out (Some t, [h1, h2, m1, m2]) =
       Some (Some (midnight t + (10 * digit_val h1 + digit_val h2) * ns_per_hour
                    + (10 * digit_val m1 + digit_val m2) * ns_per_minute))"
    using row_out_four[OF dec] by simp
  then show ?thesis using hhmm_no_raise[OF len ok] i ls z by simp
qed

lemma try_block_insert:
  assumes l1: "length ds1 = length s1" and l2: "length ds2 = length s2" and c: "\<not> isdigit c"
  shows "try_block (DtCol (ds1 @ d # ds2)) (s1 @ c # s2) =
           map_option (\<lambda>out. take (length ds1) out @ None # drop (length ds1) out)
             (try_block (DtCol (ds1 @ ds2)) (s1 @ s2))"
proof -
  have f: "filter isdigit (s1 @ c # s2) = filter isdigit (s1 @ s2)" using c by simp
  have z: "zip (ds1 @ d # ds2) (s1 @ c # s2) = zip ds1 s1 @ (d, c) # zip ds2 s2"
    using l1 by simp
  have z': "zip (ds1 @ ds2) (s1 @ s2) = zip ds1 s1 @ zip ds2 s2" using l1 by simp
  have r: "row_out (d, c) = Some None" using c by (simp add: row_out_def)
  have la: "those (map row_out (zip ds1 s1)) = Some a \<Longrightarrow> length a = length ds1" for a
    using l1 by (auto simp: those_eq_Some dest: arg_cong[where f=length])
  show ?thesis
    unfolding try_block_def f z z' using l1 l2 r la
    by (auto simp: those_append split: option.splits)
qed

lemma decimal_chars:
  "is_decimal (CHR ''0'')" "is_decimal (CHR ''1'')" "is_decimal (CHR ''2'')"
  "is_decimal (CHR ''3'')" "is_decimal (CHR ''4'')" "is_decimal (CHR ''5'')"
  "is_decimal (CHR ''6'')" "is_decimal (CHR ''7'')" "is_decimal (CHR ''8'')"
  "is_decimal (CHR ''9'')"
  by (simp_all add: is_decimal_def digit_chars_def)

lemma replicate_insert: "replicate a x @ x # replicate b x = x # replicate (a + b) x"
  by (simp add: replicate_app_Cons_same replicate_add)

lemma str_nat_digit: "n < 10 \<Longrightarrow> str_nat n = [digit_chars ! n]"
  by (simp add: str_nat.simps)

lemma str_nat_step:
  "10 \<le> n \<Longrightarrow> str_nat n = str_nat (n div 10) @ [digit_chars ! (n mod 10)]"
  by (subst str_nat.simps) simp

lemma replicate_num: "replicate (numeral k) x = x # replicate (pred_numeral k) x"
  by (simp add: numeral_eq_Suc)

lemmas hhmm_eval =
  hhmm_to_datetime_def code_strings_def str_int_def str_nat_digit str_nat_step
  digit_chars_def zfill_def try_block_def isdigit_def is_digit_char_def is_decimal_def
  hh_mm_def py_int_def digits_value_def digit_val_def row_out_def date_plus_def
  midnight_def ns_per_day_def ns_per_hour_def ns_per_minute_def ts_max_def ts_min_def
  no_raise_def is_zero_def zeros_to_end_def example_lib_def replicate_num

lemmas civil_eval =
  civil_ts_def days_from_civil_def days_in_month_def iso_date_def month_from_days_def Let_def

text \<open>
  C3, as amended. In a batch whose two columns have the same length and in which no row
  raises inside the \<^verbatim>\<open>try\<close>, a row with a date and a code whose padded form is four
  decimal digits, hour at most 23 and minute at most 59, gets the day of its date at
  00:00 plus that many hours and minutes. The code 0 pads to \<^verbatim>\<open>0000\<close>: the example
  below. As stated, for every date, the claim fails on the last day of datetime64[ns]:
  2262-04-11 with code 2359 overflows, and the \<^verbatim>\<open>except\<close> makes the result missing.
\<close>

theorem hhmm_valid_code:
  assumes "col_len time_series = length ds"
    and "no_raise ds (code_strings lib time_series)"
    and "i < length ds"
    and "ds ! i = Some t"
    and "code_strings lib time_series ! i = [h1, h2, m1, m2]"
    and "is_decimal h1" and "is_decimal h2" and "is_decimal m1" and "is_decimal m2"
    and "10 * digit_val h1 + digit_val h2 \<le> 23"
    and "10 * digit_val m1 + digit_val m2 \<le> 59"
  shows "\<exists>out. hhmm_to_datetime lib (Some (DtCol ds)) (Some time_series) = Inr out \<and>
           length out = length ds \<and>
           out ! i = Some (midnight t + (10 * digit_val h1 + digit_val h2) * ns_per_hour
                            + (10 * digit_val m1 + digit_val m2) * ns_per_minute)"
  using assms(1-9) by (rule hhmm_four_digits)

theorem hhmm_valid_code_witness:
  "\<exists>out. hhmm_to_datetime example_lib
            (Some (DtCol [Some 1646092800000000000, Some 1646092800000000000]))
            (Some (IntCol [530, 0])) = Inr out \<and>
         out ! 1 = Some 1646092800000000000"
proof -
  have a: "col_len (IntCol [530, 0])
             = length [Some (1646092800000000000::int), Some 1646092800000000000]"
    by simp
  have b: "no_raise [Some 1646092800000000000, Some 1646092800000000000]
             (code_strings example_lib (IntCol [530, 0]))"
    by (simp add: hhmm_eval)
  have c: "code_strings example_lib (IntCol [530, 0]) ! 1
             = [CHR ''0'', CHR ''0'', CHR ''0'', CHR ''0'']"
    by (simp add: hhmm_eval)
  have d: "10 * digit_val (CHR ''0'') + digit_val (CHR ''0'') \<le> 23"
          "10 * digit_val (CHR ''0'') + digit_val (CHR ''0'') \<le> 59"
    by (simp_all add: digit_val_def)
  have e: "[Some (1646092800000000000::int), Some 1646092800000000000] ! 1
             = Some 1646092800000000000"
          "1 < length [Some (1646092800000000000::int), Some 1646092800000000000]"
    by simp_all
  from hhmm_valid_code[OF a b e(2) e(1) c decimal_chars(1) decimal_chars(1) decimal_chars(1)
      decimal_chars(1) d]
  obtain out where o:
    "hhmm_to_datetime example_lib
       (Some (DtCol [Some 1646092800000000000, Some 1646092800000000000]))
       (Some (IntCol [530, 0])) = Inr out"
    "out ! 1 = Some (midnight 1646092800000000000
        + (10 * digit_val CHR ''0'' + digit_val CHR ''0'') * ns_per_hour
        + (10 * digit_val CHR ''0'' + digit_val CHR ''0'') * ns_per_minute)"
    by blast
  have "midnight 1646092800000000000
        + (10 * digit_val CHR ''0'' + digit_val CHR ''0'') * ns_per_hour
        + (10 * digit_val CHR ''0'' + digit_val CHR ''0'') * ns_per_minute = 1646092800000000000"
    by (simp add: midnight_def ns_per_day_def digit_val_def)
  with o show ?thesis by metis
qed

theorem hhmm_valid_code_counterexample:
  "civil_ts 2262 4 11 = Some 9223286400000000000 \<and>
   code_strings example_lib (IntCol [2359]) = [''2359''] \<and>
   hhmm_to_datetime example_lib (Some (DtCol [Some 9223286400000000000]))
     (Some (IntCol [2359])) = Inr [None]"
proof -
  have a: "civil_ts 2262 4 11 = Some 9223286400000000000"
    by (simp add: civil_eval ts_min_def ts_max_def ns_per_day_def)
  have b: "code_strings example_lib (IntCol [2359]) = [''2359'']"
    by (simp add: hhmm_eval)
  have c: "hhmm_to_datetime example_lib (Some (DtCol [Some 9223286400000000000]))
             (Some (IntCol [2359])) = Inr [None]"
    by (simp add: hhmm_eval)
  from a b c show ?thesis by blast
qed

text \<open>
  C9, as amended. Under the same two conditions on the batch, a row with a date and a
  code whose padded form is four decimal digits with hour above 23 or minute above 59
  gets the day of its date at 00:00 plus that many hours and minutes, rolling into the
  following days: 9999 gives 99 hours and 99 minutes. As stated, for every date, the
  claim fails near the end of datetime64[ns]: 2262-04-11 with code 9999 is missing.
\<close>

theorem hhmm_out_of_range_code:
  assumes "col_len time_series = length ds"
    and "no_raise ds (code_strings lib time_series)"
    and "i < length ds"
    and "ds ! i = Some t"
    and "code_strings lib time_series ! i = [h1, h2, m1, m2]"
    and "is_decimal h1" and "is_decimal h2" and "is_decimal m1" and "is_decimal m2"
    and "23 < 10 * digit_val h1 + digit_val h2 \<or> 59 < 10 * digit_val m1 + digit_val m2"
  shows "\<exists>out. hhmm_to_datetime lib (Some (DtCol ds)) (Some time_series) = Inr out \<and>
           out ! i \<noteq> None \<and>
           out ! i = Some (midnight t + (10 * digit_val h1 + digit_val h2) * ns_per_hour
                            + (10 * digit_val m1 + digit_val m2) * ns_per_minute)"
  using hhmm_four_digits[OF assms(1-9)] by auto

theorem hhmm_out_of_range_code_witness:
  "\<exists>out. hhmm_to_datetime example_lib (Some (DtCol [Some 1646092800000000000]))
            (Some (IntCol [9999])) = Inr out \<and>
         out ! 0 = Some (1646092800000000000 + 99 * ns_per_hour + 99 * ns_per_minute)"
proof -
  have a: "col_len (IntCol [9999]) = length [Some (1646092800000000000::int)]"
    by simp
  have b: "no_raise [Some 1646092800000000000] (code_strings example_lib (IntCol [9999]))"
    by (simp add: hhmm_eval)
  have c: "code_strings example_lib (IntCol [9999]) ! 0
             = [CHR ''9'', CHR ''9'', CHR ''9'', CHR ''9'']"
    by (simp add: hhmm_eval)
  have d: "23 < 10 * digit_val (CHR ''9'') + digit_val (CHR ''9'')
             \<or> 59 < 10 * digit_val (CHR ''9'') + digit_val (CHR ''9'')"
    by (simp add: digit_val_def)
  have e: "[Some (1646092800000000000::int)] ! 0 = Some 1646092800000000000"
          "0 < length [Some (1646092800000000000::int)]"
    by simp_all
  from hhmm_out_of_range_code[OF a b e(2) e(1) c decimal_chars(10) decimal_chars(10)
      decimal_chars(10) decimal_chars(10) d]
  show ?thesis by (auto simp add: midnight_def ns_per_day_def digit_val_def)
qed

theorem hhmm_out_of_range_code_counterexample:
  "code_strings example_lib (IntCol [9999]) = [''9999''] \<and>
   hhmm_to_datetime example_lib (Some (DtCol [Some 9223286400000000000]))
     (Some (IntCol [9999])) = Inr [None]"
  by (simp add: hhmm_eval)

text \<open>
  C5, as amended. A row whose padded code fails \<^verbatim>\<open>isdigit\<close> (a missing code pads to
  \<^verbatim>\<open>0nan\<close>) gets a missing timestamp, the call returns, and the other rows get what they
  get in the batch without that row. As stated, for every code that is not all decimal
  digits, the claim fails: a code with a superscript digit passes \<^verbatim>\<open>isdigit\<close>, \<^verbatim>\<open>int\<close>
  raises on it, and the result of every row of the batch is missing.
\<close>

theorem hhmm_invalid_row:
  assumes "code_strings lib time_series = s1 @ c # s2"
    and "code_strings lib time_series' = s1 @ s2"
    and "length ds1 = length s1" and "length ds2 = length s2"
    and "\<not> isdigit c"
  shows "\<exists>out. hhmm_to_datetime lib (Some (DtCol (ds1 @ ds2))) (Some time_series') = Inr out \<and>
           hhmm_to_datetime lib (Some (DtCol (ds1 @ d # ds2))) (Some time_series) =
             Inr (take (length ds1) out @ None # drop (length ds1) out)"
  using assms try_block_insert[of ds1 s1 ds2 s2 c d]
  by (auto simp: hhmm_to_datetime_def replicate_insert split: option.splits)

theorem hhmm_invalid_row_witness:
  "hhmm_to_datetime example_lib
     (Some (DtCol [Some 1646092800000000000, Some 1646092800000000000]))
     (Some (FloatCol [Some 530, None]))
   = Inr [Some (1646092800000000000 + 5 * ns_per_hour + 30 * ns_per_minute), None]"
proof -
  have a: "code_strings example_lib (FloatCol [Some 530, None]) = [''0530''] @ ''0nan'' # []"
    by (simp add: hhmm_eval)
  have b: "code_strings example_lib (FloatCol [Some 530]) = [''0530''] @ []"
    by (simp add: hhmm_eval)
  have c: "\<not> isdigit ''0nan''"
    by (simp add: hhmm_eval)
  have d: "length [Some (1646092800000000000::int)] = length [''0530'']"
          "length ([]::int option list) = length ([]::string list)"
    by simp_all
  have e: "hhmm_to_datetime example_lib (Some (DtCol [Some 1646092800000000000]))
             (Some (FloatCol [Some 530]))
           = Inr [Some (1646092800000000000 + 5 * ns_per_hour + 30 * ns_per_minute)]"
    by (simp add: hhmm_eval)
  from hhmm_invalid_row[OF a b d c, of "Some 1646092800000000000"] e
  show ?thesis by auto
qed

theorem hhmm_invalid_row_counterexample:
  "\<not> list_all is_decimal
       (code_strings example_lib
          (ObjCol [Some ''0530'', Some (''12'' @ [CHR 0xB2, CHR ''3''])]) ! 1) \<and>
   hhmm_to_datetime example_lib (Some (DtCol [Some 0])) (Some (ObjCol [Some ''0530'']))
     = Inr [Some (5 * ns_per_hour + 30 * ns_per_minute)] \<and>
   hhmm_to_datetime example_lib (Some (DtCol [Some 0, Some 0]))
     (Some (ObjCol [Some ''0530'', Some (''12'' @ [CHR 0xB2, CHR ''3''])]))
     = Inr [None, None]"
  by (simp add: hhmm_eval)

section \<open>Properties of the flags\<close>

lemma get_set_col: "get_col (set_col f n c) m = (if m = n then Some c else get_col f m)"
  by (induction f) (auto simp: get_col_def)

lemma has_col_get: "has_col f n \<longleftrightarrow> get_col f n \<noteq> None"
  by (simp add: has_col_def get_col_def map_of_eq_None_iff)

lemma has_set_col: "has_col (set_col f n c) m \<longleftrightarrow> m = n \<or> has_col f m"
  by (simp add: has_col_get get_set_col)

lemma length_to_numeric: "length (num_values (to_numeric lib c)) = col_len c"
  by (cases c) simp_all






lemma long_delay_one: "long_delay v = 1 \<longleftrightarrow> (\<exists>q. v = Some q \<and> 15 < q)"
  by (cases v) (simp_all add: long_delay_def)

lemma long_delay_zero: "long_delay v = 0 \<longleftrightarrow> \<not> (\<exists>q. v = Some q \<and> 15 < q)"
  by (cases v) (simp_all add: long_delay_def)

text \<open>
  C6. On a merged table with the columns \<^verbatim>\<open>FL_DATE\<close> and \<^verbatim>\<open>DEP_DELAY_MIN\<close>, lines 157 to
  163 return, and the flag of every row is 1 exactly when its delay is a number above
  15, and 0 otherwise: for the delay 15 and for a missing delay the flag is 0.
\<close>

theorem long_delay_flag_iff:
  assumes "get_col merged ''FL_DATE'' = Some fd"
    and "get_col merged ''DEP_DELAY_MIN'' = Some dd"
    and "i < col_len dd"
  shows "\<exists>m flags. add_derived lib merged = Inr m \<and>
           get_col m ''LONG_DELAY_FLAG'' = Some (IntCol flags) \<and>
           length flags = col_len dd \<and>
           (flags ! i = 1 \<longleftrightarrow> (\<exists>q. num_values (to_numeric lib dd) ! i = Some q \<and> 15 < q)) \<and>
           (flags ! i = 0 \<longleftrightarrow> \<not> (\<exists>q. num_values (to_numeric lib dd) ! i = Some q \<and> 15 < q))"
proof -
  have h: "has_col merged ''FL_DATE''" using assms(1) by (simp add: has_col_get)
  have e: "ensure_fl_date lib merged
             = set_col merged ''FL_DATE'' (DtCol (to_datetime lib fd))"
    using h assms(1) by (simp add: ensure_fl_date_def)
  have "add_derived lib merged =
          Inr (set_col
                 (set_col
                    (set_col (ensure_fl_date lib merged) ''YEAR_MONTH''
                       (PeriodCol (map (map_option (ts_to_month lib)) (to_datetime lib fd))))
                    ''DEP_DELAY_MIN'' (to_numeric lib dd))
                 ''LONG_DELAY_FLAG'' (long_delay_flag lib dd))"
    using assms(2) by (simp add: add_derived_def e get_set_col)
  moreover have "i < length (num_values (to_numeric lib dd))"
    using assms(3) by (simp add: length_to_numeric)
  ultimately show ?thesis
    by (simp add: get_set_col long_delay_flag_def length_to_numeric long_delay_one long_delay_zero)
qed


lemmas frame_eval =
  has_col_def get_col_def nrows_def cancel_col_def cancelled_flag_def fillna0_int_def
  astype_int_def both_missing_def long_delay_def long_delay_flag_def



theorem long_delay_flag_iff_witness:
  "(\<exists>m flags. add_derived example_lib
       [(''FL_DATE'', DtCol [Some 1646092800000000000, Some 1646092800000000000, None]),
        (''DEP_DELAY_MIN'', FloatCol [Some 15, Some (150001 / 10000), None])] = Inr m \<and>
     get_col m ''LONG_DELAY_FLAG'' = Some (IntCol flags) \<and> flags ! 1 = 1) \<and>
   long_delay_flag example_lib (FloatCol [Some 15, Some (150001 / 10000), None])
     = IntCol [0, 1, 0]"
proof -
  let ?m = "[(''FL_DATE'', DtCol [Some 1646092800000000000, Some 1646092800000000000, None]),
        (''DEP_DELAY_MIN'', FloatCol [Some 15, Some (150001 / 10000), None])]"
  have a: "get_col ?m ''FL_DATE''
             = Some (DtCol [Some 1646092800000000000, Some 1646092800000000000, None])"
    by (simp add: get_col_def)
  have b: "get_col ?m ''DEP_DELAY_MIN'' = Some (FloatCol [Some 15, Some (150001 / 10000), None])"
    by (simp add: get_col_def)
  have c: "1 < col_len (FloatCol [Some 15, Some (150001 / 10000), None])" by simp
  have d: "\<exists>q. num_values (to_numeric example_lib
                  (FloatCol [Some 15, Some (150001 / 10000), None])) ! 1 = Some q \<and> 15 < q"
    by (intro exI[of _ "150001 / 10000"]) simp
  have e: "long_delay_flag example_lib (FloatCol [Some 15, Some (150001 / 10000), None])
             = IntCol [0, 1, 0]"
    by (simp add: frame_eval)
  from long_delay_flag_iff[OF a b c, of example_lib] d e show ?thesis by blast
qed

section \<open>Properties of the delay\<close>











section \<open>A table without a date\<close>

lemma time_loop_no_date:
  "\<not> has_col fl ''FL_DATE'' \<Longrightarrow> time_loop lib fl es = Inr fl"
  by (induction es) (simp_all add: time_step_def)

lemma has_col_rename:
  "has_col (rename_col f old new) n \<Longrightarrow> n = new \<or> has_col f n"
  by (auto simp: has_col_def rename_col_def split: if_splits)

lemma has_col_select: "has_col (select_cols f names) n \<Longrightarrow> has_col f n"
  by (auto simp: has_col_def select_cols_def)

lemma dep_delay_step_cases:
  "dep_delay_step lib fl = Inl OperandError \<or>
   (\<exists>c. dep_delay_step lib fl = Inr (set_col fl ''DEP_DELAY_MIN'' c))"
  by (auto simp: dep_delay_step_def split: column.splits)

lemma airline_step_no_date:
  "\<not> has_col fl ''FL_DATE'' \<Longrightarrow> \<not> has_col (airline_step fl) ''FL_DATE''"
  using has_col_rename[of fl _ "''AIRLINE''" "''FL_DATE''"]
  by (auto simp: airline_step_def)

text \<open>
  C4. A flights table with no \<^verbatim>\<open>FL_DATE\<close> column and not all of \<^verbatim>\<open>YEAR\<close>, \<^verbatim>\<open>MONTH\<close>, \<^verbatim>\<open>DAY\<close>
  never gets an \<^verbatim>\<open>FL_DATE\<close> column, and the script does not run to completion: line 161
  reads \<^verbatim>\<open>m["FL_DATE"]\<close> and raises KeyError (or line 89 has raised before, on actual and
  scheduled departure columns that are no datetime columns). With a \<^verbatim>\<open>DEP_DELAY\<close> column
  it is the KeyError of line 161.
\<close>

theorem pipeline_without_date:
  assumes "\<not> has_col flights_raw ''FL_DATE''"
    and "\<not> (has_col flights_raw ''YEAR'' \<and> has_col flights_raw ''MONTH''
             \<and> has_col flights_raw ''DAY'')"
  shows "(pipeline lib flights_raw weather_raw = Inl (KeyError ''FL_DATE'') \<or>
          pipeline lib flights_raw weather_raw = Inl OperandError) \<and>
         (has_col flights_raw ''DEP_DELAY'' \<longrightarrow>
          pipeline lib flights_raw weather_raw = Inl (KeyError ''FL_DATE''))"
proof -
  let ?fl0 = "time_hour_step lib flights_raw"
  have d: "derive_fl_date lib flights_raw = flights_raw"
    using assms by (auto simp: derive_fl_date_def)
  have n0: "\<not> has_col ?fl0 ''FL_DATE''"
    using assms(1) by (simp add: time_hour_step_def has_set_col)
  have fd: "flights_delay lib flights_raw = dep_delay_step lib ?fl0"
    by (simp add: flights_delay_def d time_loop_no_date[OF n0])
  have k: "dep_delay_step lib ?fl0 \<noteq> Inl OperandError" if "has_col flights_raw ''DEP_DELAY''"
  proof -
    from that have "has_col ?fl0 ''DEP_DELAY''"
      by (simp add: time_hour_step_def has_set_col)
    then show ?thesis by (simp add: dep_delay_step_def)
  qed
  from dep_delay_step_cases[of lib ?fl0] show ?thesis
  proof
    assume e: "dep_delay_step lib ?fl0 = Inl OperandError"
    then have "pipeline lib flights_raw weather_raw = Inl OperandError"
      by (simp add: pipeline_def merged_table_def prepare_flights_def fd)
    with e k show ?thesis by blast
  next
    assume "\<exists>c. dep_delay_step lib ?fl0 = Inr (set_col ?fl0 ''DEP_DELAY_MIN'' c)"
    then obtain c where c: "dep_delay_step lib ?fl0 = Inr (set_col ?fl0 ''DEP_DELAY_MIN'' c)"
      by blast
    let ?fl2 = "set_col ?fl0 ''DEP_DELAY_MIN'' c"
    let ?small = "select_cols (airline_step (cancel_step lib ?fl2)) useful_cols"
    have "\<not> has_col (cancel_step lib ?fl2) ''FL_DATE''"
      using n0 by (simp add: cancel_step_def has_set_col)
    then have "\<not> has_col (airline_step (cancel_step lib ?fl2)) ''FL_DATE''"
      by (rule airline_step_no_date)
    then have ns: "\<not> has_col ?small ''FL_DATE''"
      using has_col_select by blast
    have p: "prepare_flights lib flights_raw = Inr ?small"
      by (simp add: prepare_flights_def fd c)
    have m: "merged_table lib flights_raw weather_raw = Inr ?small"
      using ns by (simp add: merged_table_def p merge_step_def)
    have "add_derived lib ?small = Inl (KeyError ''FL_DATE'')"
      using ns by (simp add: add_derived_def ensure_fl_date_def has_col_get)
    then show ?thesis by (simp add: pipeline_def m)
  qed
qed

theorem pipeline_without_date_witness:
  "pipeline example_lib
     [(''ORIGIN'', ObjCol [Some ''JFK'', Some ''LAX'']), (''DEP_DELAY'', IntCol [5, 20])]
     [(''DATE'', ObjCol [Some ''2022-03-01'', Some ''2022-03-01'']), (''TMAX'', IntCol [70, 80])]
   = Inl (KeyError ''FL_DATE'')"
proof -
  let ?fl = "[(''ORIGIN'', ObjCol [Some ''JFK'', Some ''LAX'']), (''DEP_DELAY'', IntCol [5, 20])]"
  let ?wx = "[(''DATE'', ObjCol [Some ''2022-03-01'', Some ''2022-03-01'']),
              (''TMAX'', IntCol [70, 80])]"
  have a: "\<not> has_col ?fl ''FL_DATE''"
    by (simp add: has_col_def)
  have b: "\<not> (has_col ?fl ''YEAR'' \<and> has_col ?fl ''MONTH'' \<and> has_col ?fl ''DAY'')"
    by (simp add: has_col_def)
  have h: "has_col ?fl ''DEP_DELAY''"
    by (simp add: has_col_def)
  from pipeline_without_date[OF a b, of example_lib ?wx] h show ?thesis by blast
qed

section \<open>Properties of the weather aggregate\<close>










lemma example_iso_date_jan: "iso_date ''2022-01-01'' = Some 1640995200000000000"
  by (simp add: civil_eval py_int_def digits_value_def digit_val_def
      is_decimal_def digit_chars_def ts_min_def ts_max_def ns_per_day_def)

lemma example_dates_jan:
  "to_datetime example_lib (ObjCol [Some ''2022-01-01'', Some ''2022-01-01''])
     = [Some 1640995200000000000, Some 1640995200000000000]"
  by (simp add: example_lib_def example_iso_date_jan)

lemma example_raw_weather:
  "prepare_weather example_lib
     [(''DATE'', ObjCol [Some ''2022-01-01'', Some ''2022-01-01'']),
      (''COND'', ObjCol [Some ''rain'', Some ''sun''])]
   = [(''DATE'', DtCol [Some 1640995200000000000, Some 1640995200000000000]),
      (''COND'', ObjCol [Some ''rain'', Some ''sun''])]"
  by (simp add: prepare_weather_def derive_wx_date_def station_step_def weather_aggregate_def
      numeric_weather_cols_def numeric_part_def has_col_def get_col_def example_lib_def
      example_iso_date_jan)


section \<open>Properties of the merge\<close>

lemma match_rows_none: "k \<notin> set rk \<Longrightarrow> match_rows rk k = []"
  by (auto simp: match_rows_def filter_empty_conv)

lemma match_rows_distinct:
  assumes "distinct rk"
  shows "length (match_rows rk k) \<le> 1"
proof -
  have d: "distinct (match_rows rk k)" by (simp add: match_rows_def)
  have "j = j'" if "j \<in> set (match_rows rk k)" "j' \<in> set (match_rows rk k)" for j j'
    using that assms by (auto simp: match_rows_def nth_eq_iff_index_eq)
  then have "card (set (match_rows rk k)) \<le> 1"
    by (metis card_le_Suc0_iff_eq List.finite_set One_nat_def)
  then show ?thesis using d by (simp add: distinct_card)
qed

lemma pairs_of_single:
  assumes "distinct rk"
  shows "\<exists>j. pairs_of rk r = [(fst r, j)] \<and> (snd r \<notin> set rk \<longrightarrow> j = None)"
proof (cases "match_rows rk (snd r)")
  case Nil
  then show ?thesis by (simp add: pairs_of_def)
next
  case (Cons j js)
  with match_rows_distinct[OF assms, of "snd r"] have "js = []" by simp
  with Cons match_rows_none[of "snd r" rk] show ?thesis
    by (auto simp: pairs_of_def)
qed

lemma concat_pairs:
  assumes "distinct rk"
  shows "map fst (concat (map (pairs_of rk) zs)) = map fst zs \<and>
         length (concat (map (pairs_of rk) zs)) = length zs \<and>
         (\<forall>i<length zs. snd (zs ! i) \<notin> set rk \<longrightarrow>
              snd (concat (map (pairs_of rk) zs) ! i) = None)"
proof (induction zs)
  case Nil
  then show ?case by simp
next
  case (Cons z zs)
  from pairs_of_single[OF assms, of z] obtain j where
    j: "pairs_of rk z = [(fst z, j)]" "snd z \<notin> set rk \<longrightarrow> j = None" by blast
  show ?case using Cons j by (auto simp: nth_Cons split: nat.splits)
qed

lemma left_pairs_distinct:
  assumes "distinct rk"
  shows "map fst (left_pairs lk rk) = [0..<length lk]"
    and "length (left_pairs lk rk) = length lk"
    and "i < length lk \<Longrightarrow> lk ! i \<notin> set rk \<Longrightarrow> snd (left_pairs lk rk ! i) = None"
  using concat_pairs[OF assms, of "zip [0..<length lk] lk"]
  by (simp_all add: left_pairs_def)

lemma take_rows_all: "take_rows c [0..<col_len c] = c"
  by (cases c) (simp_all add: map_nth)

lemma col_len_take_opt: "col_len (take_opt c js) = length js"
  by (cases c) simp_all

lemma isna_take_opt:
  assumes "i < length js" and "js ! i = None"
  shows "isna (take_opt c js) ! i"
proof -
  have "\<not> list_all (\<lambda>j. j \<noteq> None) js"
    using assms by (auto simp: list_all_length)
  then show ?thesis using assms by (cases c) (simp_all add: pick_def)
qed

text \<open>
  C2, as amended. When no two rows of the weather-side table hold the same \<^verbatim>\<open>DATE\<close> (the
  per-date aggregate is such a table) and the suffix makes no two of its names equal, the
  merge returns a table with the rows of the flight table, as many and in their order,
  its columns unchanged in front, and a flight row whose date is no weather date has a
  missing value in every column that comes from the weather table. As stated, for every
  weather-side table, the claim fails: the raw weather table that line 140 passes on
  when it has no numeric column may hold a date twice, and the flight row is doubled.
\<close>

theorem merge_left_join:
  assumes "get_col fl_small ''FL_DATE'' = Some (DtCol lk)"
    and "get_col wx_agg ''DATE'' = Some (DtCol rk)"
    and "distinct rk"
    and "distinct (suffix_right fl_small wx_agg)"
    and "list_all (\<lambda>e. col_len (snd e) = length lk) fl_small"
  shows "\<exists>merged. merge_step fl_small wx_agg = Inr merged \<and>
           nrows merged = nrows fl_small \<and>
           take (length fl_small) merged = fl_small \<and>
           list_all (\<lambda>e. col_len (snd e) = length lk) merged \<and>
           (\<forall>i<length lk. lk ! i \<notin> set rk \<longrightarrow>
              list_all (\<lambda>e. isna (snd e) ! i) (drop (length fl_small) merged))"
proof -
  let ?ps = "left_pairs lk rk"
  let ?left = "map (\<lambda>e. (fst e, take_rows (snd e) (map fst ?ps))) fl_small"
  let ?right = "map (\<lambda>e. (fst e, take_opt (snd e) (map snd ?ps)))
                  (zip (suffix_right fl_small wx_agg) (map snd wx_agg))"
  note lp = left_pairs_distinct[OF assms(3), where lk = lk]
  have m: "merge_step fl_small wx_agg = Inr (?left @ ?right)"
    using assms(1,2,4) by (simp add: merge_step_def merge_left_def has_col_get)
  have l: "?left = fl_small"
  proof -
    have "(fst e, take_rows (snd e) (map fst ?ps)) = e" if "e \<in> set fl_small" for e
    proof -
      from that assms(5) have "col_len (snd e) = length lk" by (auto simp: list_all_iff)
      then show ?thesis using take_rows_all[of "snd e"] by (simp add: lp(1))
    qed
    then show ?thesis by (simp add: map_idI)
  qed
  have ne: "fl_small \<noteq> []" using assms(1) by (auto simp: get_col_def)
  have n: "nrows (fl_small @ ?right) = nrows fl_small"
    using ne by (cases fl_small) (simp_all add: nrows_def)
  have r1: "list_all (\<lambda>e. col_len (snd e) = length lk) ?right"
    by (simp add: list_all_iff col_len_take_opt lp(2))
  have r2: "list_all (\<lambda>e. isna (snd e) ! i) ?right" if "i < length lk" "lk ! i \<notin> set rk" for i
  proof -
    have "map snd ?ps ! i = None" using lp(2) lp(3)[OF that] that(1) by simp
    moreover have "i < length (map snd ?ps)" using lp(2) that(1) by simp
    ultimately show ?thesis using isna_take_opt by (simp add: list_all_iff)
  qed
  show ?thesis
    using m l n r1 r2 assms(5) by simp
qed


lemma example_aggregate:
  "weather_aggregate
     [(''DATE'', DtCol [Some 1640995200000000000, Some 1640995200000000000]),
      (''TMAX'', FloatCol [Some 50, Some 60])]
   = [(''DATE'', DtCol [Some 1640995200000000000]), (''TMAX'', FloatCol [Some 55])]"
  by (simp add: weather_aggregate_def numeric_weather_cols_def numeric_part_def has_col_def
      get_col_def groupby_mean_def group_keys_def group_mean_def group_values_def mean_def)

theorem merge_left_join_witness:
  "\<exists>merged. merge_step
       [(''FL_DATE'', DtCol [Some 1640995200000000000, Some 1641081600000000000]),
        (''DEP_DELAY_MIN'', FloatCol [Some 15, None])]
       (weather_aggregate
          [(''DATE'', DtCol [Some 1640995200000000000, Some 1640995200000000000]),
           (''TMAX'', FloatCol [Some 50, Some 60])]) = Inr merged \<and>
     nrows merged = 2 \<and>
     list_all (\<lambda>e. isna (snd e) ! 1) (drop 2 merged)"
proof -
  let ?lk = "[Some (1640995200000000000::int), Some 1641081600000000000]"
  let ?rk = "[Some (1640995200000000000::int)]"
  let ?fl = "[(''FL_DATE'', DtCol ?lk), (''DEP_DELAY_MIN'', FloatCol [Some 15, None])]"
  let ?wx = "[(''DATE'', DtCol ?rk), (''TMAX'', FloatCol [Some 55])]"
  have a: "get_col ?fl ''FL_DATE'' = Some (DtCol ?lk)" by (simp add: get_col_def)
  have b: "get_col ?wx ''DATE'' = Some (DtCol ?rk)" by (simp add: get_col_def)
  have c: "distinct ?rk" by simp
  have d: "distinct (suffix_right ?fl ?wx)" by (simp add: suffix_right_def has_col_def)
  have e: "list_all (\<lambda>e. col_len (snd e) = length ?lk) ?fl" by simp
  from merge_left_join[OF a b c d e] obtain merged where m:
    "merge_step ?fl ?wx = Inr merged"
    "nrows merged = nrows ?fl"
    "\<forall>i<length ?lk. ?lk ! i \<notin> set ?rk \<longrightarrow>
        list_all (\<lambda>e. isna (snd e) ! i) (drop (length ?fl) merged)"
    by blast
  from m(3)[rule_format, of 1] have "list_all (\<lambda>e. isna (snd e) ! 1) (drop 2 merged)"
    by (simp add: numeral_2_eq_2)
  moreover have "nrows merged = 2" using m(2) by (simp add: nrows_def)
  ultimately show ?thesis using m(1) by (simp add: example_aggregate)
qed

lemma example_flights:
  "prepare_flights example_lib [(''FL_DATE'', ObjCol [Some ''2022-01-01''])]
     = Inr [(''FL_DATE'', DtCol [Some 1640995200000000000]),
            (''DEP_DELAY_MIN'', FloatCol [None]), (''CANCELLED_FLAG'', IntCol [1])]"
  by (simp add: prepare_flights_def flights_delay_def derive_fl_date_def time_hour_step_def
      time_map_def time_step_def dep_delay_step_def cancel_step_def cancelled_flag_def
      cancel_col_def airline_step_def select_cols_def useful_cols_def has_col_def get_col_def
      nrows_def both_missing_def example_lib_def example_iso_date_jan)

lemma example_many_to_many:
  "merge_step
     [(''FL_DATE'', DtCol [Some 1640995200000000000]),
      (''DEP_DELAY_MIN'', FloatCol [None]), (''CANCELLED_FLAG'', IntCol [1])]
     [(''DATE'', DtCol [Some 1640995200000000000, Some 1640995200000000000]),
      (''COND'', ObjCol [Some ''rain'', Some ''sun''])]
   = Inr [(''FL_DATE'', DtCol [Some 1640995200000000000, Some 1640995200000000000]),
          (''DEP_DELAY_MIN'', FloatCol [None, None]), (''CANCELLED_FLAG'', IntCol [1, 1]),
          (''DATE'', DtCol [Some 1640995200000000000, Some 1640995200000000000]),
          (''COND'', ObjCol [Some ''rain'', Some ''sun''])]"
  by (simp add: merge_step_def merge_left_def has_col_def get_col_def suffix_right_def
      left_pairs_def pairs_of_def match_rows_def pick_def)

theorem merge_left_join_counterexample:
  "map_sum id nrows (prepare_flights example_lib [(''FL_DATE'', ObjCol [Some ''2022-01-01''])])
     = Inr 1 \<and>
   map_sum id nrows
     (merged_table example_lib [(''FL_DATE'', ObjCol [Some ''2022-01-01''])]
        [(''DATE'', ObjCol [Some ''2022-01-01'', Some ''2022-01-01'']),
         (''COND'', ObjCol [Some ''rain'', Some ''sun''])])
     = Inr 2"
  by (simp add: merged_table_def example_flights example_raw_weather example_many_to_many
      nrows_def)

end
